theory Spec2Isabelle
  imports Main
begin

section \<open>Python values and exceptions\<close>

text \<open>
  An exception is its class and its message. An exception raised inside a call into an
  external library (the flat-index library, the tensor library) is kept apart as
  \<open>Library e\<close>: the wrappers neither catch nor produce those.
\<close>

datatype exn = TypeError | ValueError | AttributeError | IndexError | KeyError

datatype 'e error = Raised exn string | Library 'e

text \<open>
  A numeric array: its shape and its elements in row-major order. The element type is left
  open (\<open>float32\<close> in the code).
\<close>

record 'a ndarray =
  shape :: "nat list"
  data :: "'a list"

definition ndim :: "'a ndarray \<Rightarrow> nat" where
  "ndim a = length (shape a)"

text \<open>\<open>a.shape[i]\<close>: an \<open>IndexError\<close> when the tuple is too short.\<close>

definition shape_at :: "'a ndarray \<Rightarrow> nat \<Rightarrow> nat option" where
  "shape_at a i = (if i < length (shape a) then Some (shape a ! i) else None)"

text \<open>\<open>a.reshape(1, -1)\<close>: one row holding every element.\<close>

definition reshape_row :: "'a ndarray \<Rightarrow> 'a ndarray" where
  "reshape_row a = a\<lparr>shape := [1, prod_list (shape a)]\<rparr>"

text \<open>
  The objects a caller can pass where an array is expected: a numpy array, a torch tensor,
  \<open>None\<close>, or an object of some other class (given by the name of its class).
\<close>

datatype 'a pyobj = NdArray "'a ndarray" | Tensor "'a ndarray" | NoneObj | Obj string

fun isinstance_ndarray :: "'a pyobj \<Rightarrow> bool" where
  "isinstance_ndarray (NdArray a) = True"
| "isinstance_ndarray v = False"

fun isinstance_Tensor :: "'a pyobj \<Rightarrow> bool" where
  "isinstance_Tensor (Tensor t) = True"
| "isinstance_Tensor v = False"

text \<open>\<open>type(v).__name__\<close>\<close>

fun type_name :: "'a pyobj \<Rightarrow> string" where
  "type_name (NdArray a) = ''ndarray''"
| "type_name (Tensor t) = ''Tensor''"
| "type_name NoneObj = ''NoneType''"
| "type_name (Obj n) = n"

text \<open>\<open>v.cpu().numpy()\<close>\<close>

fun cpu_numpy :: "'a pyobj \<Rightarrow> 'a pyobj" where
  "cpu_numpy (Tensor t) = NdArray t"
| "cpu_numpy v = v"

section \<open>The flat-index wrapper \<open>BaseFaissAnn\<close>\<close>

text \<open>
  An instance attribute is absent, bound to \<open>None\<close>, or bound to an object. Reading an
  absent attribute raises \<open>AttributeError\<close>.
\<close>

datatype 'v attr = Unbound | IsNone | Bound 'v

fun is_set :: "'v attr \<Rightarrow> bool" where
  "is_set (Bound v) = True"
| "is_set s = False"

record ('idx, 'a) BaseFaissAnn =
  index_type :: string
  index :: "'idx attr"
  embeddings :: "'a ndarray attr"

text \<open>
  The flat-index library is external. The wrapper calls two constructors, \<open>add\<close> and
  \<open>search\<close>; they are a parameter of the model. \<open>add\<close> changes the index object in
  place and may raise; \<open>search\<close> returns the pair of arrays (distances, indices) or raises.
\<close>

record ('idx, 'a, 'e, 'r) faiss =
  IndexFlatL2 :: "nat \<Rightarrow> 'idx"
  IndexFlatIP :: "nat \<Rightarrow> 'idx"
  add :: "'idx \<Rightarrow> 'a ndarray \<Rightarrow> 'idx \<times> 'e option"
  search :: "'idx \<Rightarrow> 'a ndarray \<Rightarrow> int \<Rightarrow> 'e + 'r"

text \<open>
  \<open>__init__\<close> calls the initializer of the base class \<open>BaseAnn\<close>, which is not among the
  sources: what that call leaves in the two attributes is the parameter \<open>base\<close>. The
  initializer itself binds \<open>index_type\<close> only; its two other lines are annotations
  without a value, which bind nothing.
\<close>

definition BaseFaissAnn_init ::
  "'idx attr \<times> 'a ndarray attr \<Rightarrow> string \<Rightarrow> ('idx, 'a) BaseFaissAnn" where
  "BaseFaissAnn_init base t = \<lparr>index_type = t, index = fst base, embeddings = snd base\<rparr>"

text \<open>
  Modelled from the spec: the base class \<open>BaseAnn\<close> is missing. By the spec the index
  handle and the embedding matrix are both unset before \<open>fit\<close>, and \<open>query\<close> then
  fails with the state error. \<open>query\<close> tests \<open>self.index is None\<close> and the docstring of
  the class gives both attributes as optional, so unset is bound to \<open>None\<close>.
\<close>

definition BaseAnn_init :: "'idx attr \<times> 'a ndarray attr" where
  "BaseAnn_init = (IsNone, IsNone)"

text \<open>
  \<open>_fit\<close>: the exception raised (if any) and the instance afterwards. The two calls of
  the logger touch neither and are left out.
\<close>

definition add_embeddings ::
  "('idx, 'a, 'e, 'r) faiss \<Rightarrow> ('idx, 'a) BaseFaissAnn \<Rightarrow> 'idx \<Rightarrow> 'a ndarray
    \<Rightarrow> 'e error option \<times> ('idx, 'a) BaseFaissAnn" where
  "add_embeddings lib self h a =
     (case add lib h a of (h', r) \<Rightarrow> (map_option Library r, self\<lparr>index := Bound h'\<rparr>))"

definition fit ::
  "('idx, 'a, 'e, 'r) faiss \<Rightarrow> ('idx, 'a) BaseFaissAnn \<Rightarrow> 'a pyobj
    \<Rightarrow> 'e error option \<times> ('idx, 'a) BaseFaissAnn" where
  "fit lib self v =
     (if \<not> isinstance_ndarray v
      then (Some (Raised TypeError (''Embeddings must be an ndarray, got '' @ type_name v)), self)
      else (case v of
        NdArray a \<Rightarrow>
          (let self1 = self\<lparr>embeddings := Bound a\<rparr> in
           (case shape_at a 1 of
              None \<Rightarrow> (Some (Raised IndexError ''tuple index out of range''), self1)
            | Some d \<Rightarrow>
                if index_type self1 = ''L2''
                then add_embeddings lib (self1\<lparr>index := Bound (IndexFlatL2 lib d)\<rparr>)
                       (IndexFlatL2 lib d) a
                else if index_type self1 = ''IP''
                then add_embeddings lib (self1\<lparr>index := Bound (IndexFlatIP lib d)\<rparr>)
                       (IndexFlatIP lib d) a
                else (Some (Raised ValueError
                        ''Invalid index type specified, use indexes as 'IP' or 'L2.''), self1)))
      | _ \<Rightarrow> (Some (Raised TypeError
                 (''Embeddings must be an ndarray, got '' @ type_name v)), self)))"

text \<open>The message of Python for a read of the attribute \<open>index\<close> that finds nothing.\<close>

definition no_attribute_index :: string where
  "no_attribute_index =
     CHR 0x27 # ''BaseFaissAnn'' @ CHR 0x27 # '' object has no attribute '' @
     CHR 0x27 # ''index'' @ [CHR 0x27]"

text \<open>
  \<open>query\<close> reads the instance and changes nothing. The branch for tensors comes after
  the test for arrays, as in the source.
\<close>

definition query ::
  "('idx, 'a, 'e, 'r) faiss \<Rightarrow> ('idx, 'a) BaseFaissAnn \<Rightarrow> 'a pyobj \<Rightarrow> int \<Rightarrow> 'e error + 'r" where
  "query lib self embedding n_neighbors =
     (case index self of
        Unbound \<Rightarrow> Inl (Raised AttributeError no_attribute_index)
      | IsNone \<Rightarrow> Inl (Raised ValueError
                    ''Index not initialized, please fit the model before querying.'')
      | Bound h \<Rightarrow>
          if \<not> isinstance_ndarray embedding
          then Inl (Raised TypeError ''Query embedding must be an ndarray.'')
          else (case (if isinstance_Tensor embedding then cpu_numpy embedding else embedding) of
            NdArray a \<Rightarrow>
              (case search lib h (if ndim a = 1 then reshape_row a else a) n_neighbors of
                 Inl e \<Rightarrow> Inl (Library e)
               | Inr r \<Rightarrow> Inr r)
          | _ \<Rightarrow> Inl (Raised TypeError ''Query embedding must be an ndarray.'')))"


text \<open>
  The two attributes are in step when both are bound to an object or neither is.
\<close>

definition in_step :: "('idx, 'a) BaseFaissAnn \<Rightarrow> bool" where
  "in_step self = (is_set (index self) = is_set (embeddings self))"

text \<open>
  A library that only records what it is asked, to run the wrapper on concrete inputs:
  an index is the metric, the dimension and the arrays added so far; a search answers
  with the index, the queries and the number of neighbours it was given. The theorems
  below hold for every library.
\<close>

definition recording ::
  "(string \<times> nat \<times> 'a ndarray list, 'a, unit,
    (string \<times> nat \<times> 'a ndarray list) \<times> 'a ndarray \<times> int) faiss" where
  "recording =
     \<lparr>IndexFlatL2 = (\<lambda>d. (''L2'', d, [])),
      IndexFlatIP = (\<lambda>d. (''IP'', d, [])),
      add = (\<lambda>h a. ((fst h, fst (snd h), snd (snd h) @ [a]), None)),
      search = (\<lambda>h q k. Inr (h, q, k))\<rparr>"

text \<open>
  Modelled from the spec: the flat-index library is external. By section 4.2 the index is
  built from the embedding matrix and the search is exact and brute-force: every stored
  vector is a candidate; for L2 the candidates are ranked by ascending squared Euclidean
  distance, for IP by descending inner product (ascending on the negated score); the
  answer is two parallel arrays, the scores and the positions in the fitted matrix, one
  row per query, best first. The spec is silent on more neighbours than vectors: the model
  then returns the candidates there are. Scalars are any ordered ring.
\<close>

datatype metric = L2 | IP

datatype 'a flat_index = FlatIndex metric nat "'a list list"

definition matrix_rows :: "'a ndarray \<Rightarrow> 'a list list" where
  "matrix_rows a =
     (case shape a of
        [n, d] \<Rightarrow> map (\<lambda>i. take d (drop (i * d) (data a))) [0..<n]
      | _ \<Rightarrow> [])"

definition sqdist :: "'a::linordered_idom list \<Rightarrow> 'a list \<Rightarrow> 'a" where
  "sqdist x y = sum_list (map (\<lambda>(a, b). (a - b) * (a - b)) (zip x y))"

definition inner_product :: "'a::linordered_idom list \<Rightarrow> 'a list \<Rightarrow> 'a" where
  "inner_product x y = sum_list (map (\<lambda>(a, b). a * b) (zip x y))"

fun ranked :: "metric \<Rightarrow> 'a::linordered_idom list \<Rightarrow> 'a list list \<Rightarrow> ('a \<times> nat) list" where
  "ranked L2 q xs = sort_key fst (zip (map (sqdist q) xs) [0..<length xs])"
| "ranked IP q xs = sort_key (\<lambda>p. - fst p) (zip (map (inner_product q) xs) [0..<length xs])"

fun flat_add :: "'a flat_index \<Rightarrow> 'a ndarray \<Rightarrow> 'a flat_index \<times> unit option" where
  "flat_add (FlatIndex m d xs) a =
     (case shape a of
        [n, d'] \<Rightarrow>
          if d' = d then (FlatIndex m d (xs @ matrix_rows a), None)
          else (FlatIndex m d xs, Some ())
      | _ \<Rightarrow> (FlatIndex m d xs, Some ()))"

fun flat_search ::
  "'a::linordered_idom flat_index \<Rightarrow> 'a ndarray \<Rightarrow> int \<Rightarrow> unit + 'a ndarray \<times> nat ndarray" where
  "flat_search (FlatIndex m d xs) q k =
     (case shape q of
        [nq, d'] \<Rightarrow>
          if d' = d
          then (let found = map (\<lambda>v. take (nat k) (ranked m v xs)) (matrix_rows q);
                    width = min (nat k) (length xs)
                in Inr (\<lparr>shape = [nq, width], data = concat (map (map fst) found)\<rparr>,
                        \<lparr>shape = [nq, width], data = concat (map (map snd) found)\<rparr>))
          else Inl ()
      | _ \<Rightarrow> Inl ())"

definition flat ::
  "('a::linordered_idom flat_index, 'a, unit, 'a ndarray \<times> nat ndarray) faiss" where
  "flat =
     \<lparr>IndexFlatL2 = (\<lambda>d. FlatIndex L2 d []),
      IndexFlatIP = (\<lambda>d. FlatIndex IP d []),
      add = flat_add,
      search = flat_search\<rparr>"

text \<open>
  The library on an array whose elements are not numbers (an array of Python objects, here
  of strings): \<open>add\<close> refuses the buffer with a \<open>TypeError\<close> of its own.
\<close>

definition object_arrays :: "(unit, string, exn \<times> string, unit) faiss" where
  "object_arrays =
     \<lparr>IndexFlatL2 = (\<lambda>d. ()),
      IndexFlatIP = (\<lambda>d. ()),
      add = (\<lambda>h a. (h, Some (TypeError, ''in method IndexFlat_add, argument 3 of type float const *''))),
      search = (\<lambda>h q k. Inl (TypeError, ''in method IndexFlat_search, argument 3 of type float const *''))\<rparr>"

section \<open>The pooling aggregator \<open>BasePooling\<close>\<close>

text \<open>
  A pooling function is called with the output list and the feature bag, changes the list
  in place and returns nothing, or raises: the model returns the list afterwards and the
  exception, if any.
\<close>

type_synonym ('t, 'f, 'e) pool_func = "'t list \<Rightarrow> 'f \<Rightarrow> 't list \<times> 'e error option"

record ('t, 'f, 'e) BasePooling =
  word_embedding_dimension :: int
  pooling_functions :: "('t, 'f, 'e) pool_func list"

text \<open>\<open>pooling_modes.get(mode, False)\<close> on the keyword arguments.\<close>

definition get_mode :: "(string \<rightharpoonup> bool) \<Rightarrow> string \<Rightarrow> bool" where
  "get_mode pooling_modes mode = (case pooling_modes mode of None \<Rightarrow> False | Some b \<Rightarrow> b)"

text \<open>
  \<open>__init__\<close>: the table \<open>pooling_funcs\<close> of the module \<open>func\<close> is not among the
  sources and is a parameter, as the list of its items in order.
\<close>

definition BasePooling_init ::
  "(string \<times> ('t, 'f, 'e) pool_func) list \<Rightarrow> int \<Rightarrow> (string \<rightharpoonup> bool)
    \<Rightarrow> ('t, 'f, 'e) BasePooling" where
  "BasePooling_init pooling_funcs dim pooling_modes =
     \<lparr>word_embedding_dimension = dim,
      pooling_functions =
        foldl (\<lambda>fs (mode, func). if get_mode pooling_modes mode then fs @ [func] else fs)
          [] pooling_funcs\<rparr>"

text \<open>The loop of \<open>apply_pooling\<close>: an exception ends it, with the list as it is then.\<close>

fun run_funcs :: "('t, 'f, 'e) pool_func list \<Rightarrow> ('t, 'f, 'e) pool_func" where
  "run_funcs [] output_vectors features = (output_vectors, None)"
| "run_funcs (func # fs) output_vectors features =
     (case func output_vectors features of
        (out, Some e) \<Rightarrow> (out, Some e)
      | (out, None) \<Rightarrow> run_funcs fs out features)"

definition apply_pooling :: "('t, 'f, 'e) BasePooling \<Rightarrow> ('t, 'f, 'e) pool_func" where
  "apply_pooling self output_vectors features =
     run_funcs (pooling_functions self) output_vectors features"

text \<open>
  A call of the method binds its positional arguments to the two parameters
  \<open>output_vectors\<close> and \<open>features\<close>. A call that passes the token embeddings as one
  more argument, second as the spec lists them (\<open>Call3\<close>) or last as the example in the
  docstring of the class does (\<open>Call3_doc\<close>), is refused by Python before the body runs.
\<close>

datatype ('t, 'f) call =
  Call2 "'t list" 'f | Call3 "'t list" 't 'f | Call3_doc "'t list" 'f 't

fun call_apply_pooling ::
  "('t, 'f, 'e) BasePooling \<Rightarrow> ('t, 'f) call \<Rightarrow> 't list \<times> 'e error option" where
  "call_apply_pooling self (Call2 output_vectors features) =
     apply_pooling self output_vectors features"
| "call_apply_pooling self (Call3 output_vectors token_embeddings features) =
     (output_vectors, Some (Raised TypeError
        ''BasePooling.apply_pooling() takes 3 positional arguments but 4 were given''))"
| "call_apply_pooling self (Call3_doc output_vectors features token_embeddings) =
     (output_vectors, Some (Raised TypeError
        ''BasePooling.apply_pooling() takes 3 positional arguments but 4 were given''))"

text \<open>
  Modelled from the spec: the module \<open>func\<close> with the strategies of \<open>pooling_funcs\<close> is
  missing. By the spec a strategy computes one vector and appends it to the output list;
  an error of the numeric operation surfaces to the caller. A strategy is given here by
  its computation on the feature bag.
\<close>

definition strategy_func :: "('f \<Rightarrow> 'e error + 't) \<Rightarrow> ('t, 'f, 'e) pool_func" where
  "strategy_func compute output_vectors features =
     (case compute features of
        Inl e \<Rightarrow> (output_vectors, Some e)
      | Inr v \<Rightarrow> (output_vectors @ [v], None))"

definition strategy_table ::
  "(string \<times> ('f \<Rightarrow> 'e error + 't)) list \<Rightarrow> (string \<times> ('t, 'f, 'e) pool_func) list" where
  "strategy_table table = map (\<lambda>(mode, compute). (mode, strategy_func compute)) table"

text \<open>The computations of the active strategies, in the order of the table.\<close>

definition active ::
  "(string \<rightharpoonup> bool) \<Rightarrow> (string \<times> ('f \<Rightarrow> 'e error + 't)) list \<Rightarrow> ('f \<Rightarrow> 'e error + 't) list" where
  "active pooling_modes table = map snd (filter (\<lambda>entry. get_mode pooling_modes (fst entry)) table)"





section \<open>Theorems on the wrapper\<close>

text \<open>
  C1. A wrapper on which \<open>fit\<close> was never called answers \<open>query\<close> with the state
  error, the \<open>ValueError\<close> that names the unfit state, for every library, metric,
  embedding (array, tensor or anything else) and number of neighbours.
\<close>

theorem query_unfit_state_error:
  "query lib (BaseFaissAnn_init BaseAnn_init t) e k =
     Inl (Raised ValueError ''Index not initialized, please fit the model before querying.'')"
  by (simp add: query_def BaseFaissAnn_init_def BaseAnn_init_def)

text \<open>
  The test of \<open>query\<close> is a read of the attribute: on an instance that has no attribute
  \<open>index\<close> at all the read itself fails. \<open>__init__\<close> of \<open>BaseFaissAnn\<close> binds none.
\<close>

lemma query_no_attribute:
  "index self = Unbound \<Longrightarrow>
     query lib self e k = Inl (Raised AttributeError no_attribute_index)"
  by (simp add: query_def)

text \<open>
  What \<open>query\<close> does with an array once an index is bound: a single vector goes to the
  library as a matrix of one row, anything else as it is, with the number of neighbours;
  the answer of the library is returned untouched.
\<close>

lemma query_array:
  "index self = Bound h \<Longrightarrow>
     query lib self (NdArray a) k =
       (case search lib h (if ndim a = 1 then reshape_row a else a) k of
          Inl e \<Rightarrow> Inl (Library e)
        | Inr r \<Rightarrow> Inr r)"
  by (simp add: query_def)

lemma reshape_row_vector:
  "reshape_row \<lparr>shape = [d], data = xs\<rparr> = \<lparr>shape = [1, d], data = xs\<rparr>"
  by (simp add: reshape_row_def)

lemma fit_not_array:
  "\<not> isinstance_ndarray v \<Longrightarrow>
     fit lib self v =
       (Some (Raised TypeError (''Embeddings must be an ndarray, got '' @ type_name v)), self)"
  by (simp add: fit_def)

lemma fit_array:
  "fit lib self (NdArray a) =
     (case shape_at a 1 of
        None \<Rightarrow> (Some (Raised IndexError ''tuple index out of range''),
                  self\<lparr>embeddings := Bound a\<rparr>)
      | Some d \<Rightarrow>
          if index_type self = ''L2''
          then (map_option Library (snd (add lib (IndexFlatL2 lib d) a)),
                self\<lparr>embeddings := Bound a, index := Bound (fst (add lib (IndexFlatL2 lib d) a))\<rparr>)
          else if index_type self = ''IP''
          then (map_option Library (snd (add lib (IndexFlatIP lib d) a)),
                self\<lparr>embeddings := Bound a, index := Bound (fst (add lib (IndexFlatIP lib d) a))\<rparr>)
          else (Some (Raised ValueError
                  ''Invalid index type specified, use indexes as 'IP' or 'L2.''),
                self\<lparr>embeddings := Bound a\<rparr>))"
  by (simp add: fit_def add_embeddings_def Let_def split: option.split prod.split)

lemma shape_at_1: "2 \<le> ndim a \<Longrightarrow> shape_at a (Suc 0) = Some (shape a ! Suc 0)"
  by (simp add: shape_at_def ndim_def)

lemma fit_array_no_TypeError:
  "fst (fit lib self (NdArray a)) \<noteq> Some (Raised TypeError m)"
  by (auto simp: fit_array split: option.split)

text \<open>
  C2. A fitted wrapper converts a tensor and searches. On the code: the test for arrays
  comes first and refuses the tensor, so the conversion below it is never reached. Here
  the wrapper was fitted with metric L2 on a matrix of \<open>n\<close> rows and \<open>d\<close> columns.
\<close>

theorem query_tensor_type_error:
  "query lib
     (snd (fit lib (BaseFaissAnn_init base ''L2'') (NdArray \<lparr>shape = [n, d], data = xs\<rparr>)))
     (Tensor x) k =
   Inl (Raised TypeError ''Query embedding must be an ndarray.'')"
  by (simp add: fit_array shape_at_def query_def BaseFaissAnn_init_def)

text \<open>
  C3. The index handle and the embeddings matrix are both unset or both set, whatever
  calls were made. On the code: \<open>_fit\<close> stores the matrix before it looks at the metric,
  so with an unknown metric it raises with the matrix stored and the index as the base
  class left it: the two are in step afterwards only if the base class had bound an index
  object, and they are not on an unfitted wrapper, unset being \<open>None\<close> or no attribute.
\<close>

theorem fit_invalid_metric_out_of_step:
  "fit lib (BaseFaissAnn_init base ''COSINE'') (NdArray \<lparr>shape = [n, d], data = xs\<rparr>) =
     (Some (Raised ValueError ''Invalid index type specified, use indexes as 'IP' or 'L2.''),
      \<lparr>index_type = ''COSINE'', index = fst base,
       embeddings = Bound \<lparr>shape = [n, d], data = xs\<rparr>\<rparr>)
   \<and> in_step (snd (fit lib (BaseFaissAnn_init base ''COSINE'')
                    (NdArray \<lparr>shape = [n, d], data = xs\<rparr>))) = is_set (fst base)
   \<and> in_step (BaseFaissAnn_init BaseAnn_init ''COSINE'' :: ('idx, 'a) BaseFaissAnn)
   \<and> \<not> in_step (snd (fit lib (BaseFaissAnn_init BaseAnn_init ''COSINE'')
                        (NdArray \<lparr>shape = [n, d], data = xs\<rparr>)))
   \<and> \<not> in_step (snd (fit lib (BaseFaissAnn_init (Unbound, Unbound) ''COSINE'')
                        (NdArray \<lparr>shape = [n, d], data = xs\<rparr>)))"
  by (simp add: fit_array shape_at_def BaseFaissAnn_init_def BaseAnn_init_def in_step_def)

text \<open>
  The same on a wrapper that was fitted before: an array with one axis raises at the read
  of its second dimension, after the new array was stored and with the old index in place.
\<close>

lemma fit_one_axis:
  "fit lib self (NdArray \<lparr>shape = [n], data = xs\<rparr>) =
     (Some (Raised IndexError ''tuple index out of range''),
      self\<lparr>embeddings := Bound \<lparr>shape = [n], data = xs\<rparr>\<rparr>)"
  by (simp add: fit_array shape_at_def)

lemma ranked_length: "length (ranked m q xs) = length xs"
  by (cases m) simp_all

lemma ranked_L2_sorted: "sorted (map fst (take k (ranked L2 q xs)))"
proof -
  have "sorted (map fst (ranked L2 q xs))"
    by simp
  then have "sorted (take k (map fst (ranked L2 q xs)))"
    by (rule sorted_wrt_take)
  then show ?thesis
    by (simp only: take_map)
qed

lemma ranked_IP_sorted: "sorted_wrt (\<lambda>x y. y \<le> x) (map fst (take k (ranked IP q xs)))"
proof -
  have "sorted (map (\<lambda>p. - fst p) (ranked IP q xs))"
    by simp
  then have "sorted_wrt (\<lambda>x y. y \<le> x) (map fst (ranked IP q xs))"
    by (simp add: sorted_wrt_map)
  then have "sorted_wrt (\<lambda>x y. y \<le> x) (take k (map fst (ranked IP q xs)))"
    by (rule sorted_wrt_take)
  then show ?thesis
    by (simp only: take_map)
qed

lemma ranked_positions: "set (map snd (take k (ranked m q xs))) \<subseteq> {..<length xs}"
proof -
  have "set (take k (ranked m q xs)) \<subseteq> set (ranked m q xs)"
    by (rule set_take_subset)
  moreover have "snd ` set (ranked m q xs) \<subseteq> {..<length xs}"
    by (cases m) (auto dest: set_zip_rightD)
  ultimately show ?thesis by auto
qed

lemma fit_flat:
  "fit flat (BaseFaissAnn_init base t) (NdArray \<lparr>shape = [N, D], data = xs\<rparr>) =
     (if t = ''L2''
      then (None, \<lparr>index_type = t,
                   index = Bound (FlatIndex L2 D (matrix_rows \<lparr>shape = [N, D], data = xs\<rparr>)),
                   embeddings = Bound \<lparr>shape = [N, D], data = xs\<rparr>\<rparr>)
      else if t = ''IP''
      then (None, \<lparr>index_type = t,
                   index = Bound (FlatIndex IP D (matrix_rows \<lparr>shape = [N, D], data = xs\<rparr>)),
                   embeddings = Bound \<lparr>shape = [N, D], data = xs\<rparr>\<rparr>)
      else (Some (Raised ValueError
              ''Invalid index type specified, use indexes as 'IP' or 'L2.''),
            \<lparr>index_type = t, index = fst base,
             embeddings = Bound \<lparr>shape = [N, D], data = xs\<rparr>\<rparr>))"
  by (simp add: fit_array shape_at_def BaseFaissAnn_init_def flat_def)

lemma matrix_rows_length: "length (matrix_rows \<lparr>shape = [N, D], data = xs\<rparr>) = N"
  by (simp add: matrix_rows_def)

lemma query_flat_vector:
  "query flat \<lparr>index_type = t, index = Bound (FlatIndex m D rows), embeddings = E\<rparr>
     (NdArray \<lparr>shape = [D], data = q\<rparr>) k =
   Inr (\<lparr>shape = [1, min (nat k) (length rows)],
          data = map fst (take (nat k) (ranked m (take D q) rows))\<rparr>,
        \<lparr>shape = [1, min (nat k) (length rows)],
          data = map snd (take (nat k) (ranked m (take D q) rows))\<rparr>)"
  by (simp add: query_def ndim_def reshape_row_def flat_def matrix_rows_def Let_def)

text \<open>
  C4. A wrapper is fitted on \<open>N\<close> vectors of dimension \<open>D\<close> and queried with a single
  vector of dimension \<open>D\<close> and \<open>k\<close> neighbours, \<open>k\<close> at most \<open>N\<close>. The vector is searched
  as a matrix of one row, and the call returns two arrays of shape (1, k) with \<open>k\<close>
  elements each, the indices being positions in the fitted matrix. With metric L2 the
  distances are ascending (non-decreasing), with metric IP the scores are descending
  (non-increasing), best first.
\<close>

theorem query_shape_and_order:
  "0 \<le> k \<Longrightarrow> nat k \<le> N \<Longrightarrow>
     (\<exists>dist idx.
        query flat
          (snd (fit flat (BaseFaissAnn_init base ''L2'') (NdArray \<lparr>shape = [N, D], data = xs\<rparr>)))
          (NdArray \<lparr>shape = [D], data = q\<rparr>) k = Inr (dist, idx)
        \<and> shape dist = [1, nat k] \<and> shape idx = [1, nat k]
        \<and> length (data dist) = nat k \<and> length (data idx) = nat k
        \<and> set (data idx) \<subseteq> {..<N}
        \<and> sorted (data dist))
   \<and> (\<exists>dist idx.
        query flat
          (snd (fit flat (BaseFaissAnn_init base ''IP'') (NdArray \<lparr>shape = [N, D], data = xs\<rparr>)))
          (NdArray \<lparr>shape = [D], data = q\<rparr>) k = Inr (dist, idx)
        \<and> shape dist = [1, nat k] \<and> shape idx = [1, nat k]
        \<and> length (data dist) = nat k \<and> length (data idx) = nat k
        \<and> set (data idx) \<subseteq> {..<N}
        \<and> sorted_wrt (\<lambda>x y. y \<le> x) (data dist))"
proof -
  assume k: "0 \<le> k" "nat k \<le> N"
  let ?rows = "matrix_rows \<lparr>shape = [N, D], data = xs\<rparr>"
  have n: "length ?rows = N"
    by (rule matrix_rows_length)
  have width: "min (nat k) (length ?rows) = nat k"
    using k n by simp
  have len: "length (take (nat k) (ranked m (take D q) ?rows)) = nat k" for m
    using k n by (simp add: ranked_length)
  have pos: "set (map snd (take (nat k) (ranked m (take D q) ?rows))) \<subseteq> {..<N}" for m
    using ranked_positions [of "nat k" m "take D q" ?rows] n by simp
  have l2: "sorted (map fst (take (nat k) (ranked L2 (take D q) ?rows)))"
    by (rule ranked_L2_sorted)
  have ip: "sorted_wrt (\<lambda>x y. y \<le> x) (map fst (take (nat k) (ranked IP (take D q) ?rows)))"
    by (rule ranked_IP_sorted)
  show ?thesis
    using width len pos l2 ip
    by (simp add: fit_flat query_flat_vector del: ranked.simps)
qed

theorem query_shape_and_order_witness:
  "(0::int) \<le> 2 \<and> nat 2 \<le> (3::nat)
   \<and> query flat
       (snd (fit flat (BaseFaissAnn_init BaseAnn_init ''L2'')
               (NdArray \<lparr>shape = [3, 2], data = [5, 5, 0, 1, 2, 2 :: int]\<rparr>)))
       (NdArray \<lparr>shape = [2], data = [1, 1]\<rparr>) 2 =
     Inr (\<lparr>shape = [1, 2], data = [1, 2]\<rparr>, \<lparr>shape = [1, 2], data = [1, 2]\<rparr>)
   \<and> query flat
       (snd (fit flat (BaseFaissAnn_init BaseAnn_init ''IP'')
               (NdArray \<lparr>shape = [3, 2], data = [5, 5, 0, 1, 2, 2 :: int]\<rparr>)))
       (NdArray \<lparr>shape = [2], data = [1, 1]\<rparr>) 2 =
     Inr (\<lparr>shape = [1, 2], data = [10, 4]\<rparr>, \<lparr>shape = [1, 2], data = [0, 2]\<rparr>)"
  using query_shape_and_order [of 2 3 BaseAnn_init 2 "[5, 5, 0, 1, 2, 2 :: int]" "[1, 1]"]
  by (simp add: fit_flat query_flat_vector matrix_rows_def sqdist_def inner_product_def
      upt_rec numeral_nat)

text \<open>
  C6. On an array with at least two axes, \<open>_fit\<close> of a wrapper whose metric is neither
  "L2" nor "IP" raises the configuration error; with metric "L2" (or "IP") it raises no
  \<open>ValueError\<close> of its own, builds the L2 (or IP) index for the width of the matrix,
  adds the matrix to it and keeps both.
\<close>

theorem fit_metric_dispatch:
  "2 \<le> ndim a \<Longrightarrow>
     (t \<noteq> ''L2'' \<and> t \<noteq> ''IP'' \<longrightarrow>
        fst (fit lib (BaseFaissAnn_init base t) (NdArray a)) =
          Some (Raised ValueError ''Invalid index type specified, use indexes as 'IP' or 'L2.''))
   \<and> fit lib (BaseFaissAnn_init base ''L2'') (NdArray a) =
        (map_option Library (snd (add lib (IndexFlatL2 lib (shape a ! 1)) a)),
         \<lparr>index_type = ''L2'',
          index = Bound (fst (add lib (IndexFlatL2 lib (shape a ! 1)) a)),
          embeddings = Bound a\<rparr>)
   \<and> fit lib (BaseFaissAnn_init base ''IP'') (NdArray a) =
        (map_option Library (snd (add lib (IndexFlatIP lib (shape a ! 1)) a)),
         \<lparr>index_type = ''IP'',
          index = Bound (fst (add lib (IndexFlatIP lib (shape a ! 1)) a)),
          embeddings = Bound a\<rparr>)
   \<and> (\<forall>m. fst (fit lib (BaseFaissAnn_init base ''L2'') (NdArray a)) \<noteq> Some (Raised ValueError m))
   \<and> (\<forall>m. fst (fit lib (BaseFaissAnn_init base ''IP'') (NdArray a)) \<noteq> Some (Raised ValueError m))"
  by (auto simp: fit_array shape_at_1 BaseFaissAnn_init_def)

theorem fit_metric_dispatch_witness:
  "2 \<le> ndim \<lparr>shape = [1, 2], data = [3, 4 :: int]\<rparr>
   \<and> fst (fit recording (BaseFaissAnn_init BaseAnn_init ''COSINE'')
            (NdArray \<lparr>shape = [1, 2], data = [3, 4 :: int]\<rparr>)) =
       Some (Raised ValueError ''Invalid index type specified, use indexes as 'IP' or 'L2.'')
   \<and> fit recording (BaseFaissAnn_init BaseAnn_init ''L2'')
        (NdArray \<lparr>shape = [1, 2], data = [3, 4 :: int]\<rparr>) =
       (None, \<lparr>index_type = ''L2'',
               index = Bound (''L2'', 2, [\<lparr>shape = [1, 2], data = [3, 4]\<rparr>]),
               embeddings = Bound \<lparr>shape = [1, 2], data = [3, 4]\<rparr>\<rparr>)"
  using fit_metric_dispatch [of "\<lparr>shape = [1, 2], data = [3, 4 :: int]\<rparr>" "''COSINE''"
      recording BaseAnn_init]
  by (simp add: ndim_def recording_def)

text \<open>
  C7, as the claim has it: on a native array \<open>fit\<close> raises no type error. On the code
  \<open>_fit\<close> hands the array to \<open>add\<close> of the library with nothing around the call, and
  on an array of objects the library raises a \<open>TypeError\<close>, which leaves \<open>_fit\<close>.
\<close>

theorem fit_array_type_error_counterexample:
  "isinstance_ndarray (NdArray \<lparr>shape = [1, 2], data = [''a'', ''b'']\<rparr>)
   \<and> fst (fit object_arrays (BaseFaissAnn_init BaseAnn_init ''L2'')
            (NdArray \<lparr>shape = [1, 2], data = [''a'', ''b'']\<rparr>)) =
       Some (Library (TypeError, ''in method IndexFlat_add, argument 3 of type float const *''))"
  by (simp add: fit_array shape_at_def BaseFaissAnn_init_def object_arrays_def)

text \<open>
  C7, amended: \<open>_fit\<close> raises its type error on every argument that is not an array. On
  an array its own type check never fires: the call raises no exception, or the
  \<open>IndexError\<close> of an array with one axis, or the configuration error, or an exception
  that comes out of \<open>add\<close> of the library (a type error among them), passed on as it is.
\<close>

theorem fit_type_error_own_check:
  "(\<not> isinstance_ndarray v \<longrightarrow>
      fst (fit lib self v) =
        Some (Raised TypeError (''Embeddings must be an ndarray, got '' @ type_name v)))
   \<and> (\<forall>m. fst (fit lib self (NdArray a)) \<noteq> Some (Raised TypeError m))
   \<and> (fst (fit lib self (NdArray a)) = None
      \<or> fst (fit lib self (NdArray a)) = Some (Raised IndexError ''tuple index out of range'')
      \<or> fst (fit lib self (NdArray a)) =
          Some (Raised ValueError ''Invalid index type specified, use indexes as 'IP' or 'L2.'')
      \<or> (\<exists>h e. snd (add lib h a) = Some e \<and> fst (fit lib self (NdArray a)) = Some (Library e)))"
proof -
  have own: "\<not> isinstance_ndarray v \<longrightarrow>
      fst (fit lib self v) =
        Some (Raised TypeError (''Embeddings must be an ndarray, got '' @ type_name v))"
    by (simp add: fit_not_array)
  have never: "\<forall>m. fst (fit lib self (NdArray a)) \<noteq> Some (Raised TypeError m)"
    by (simp add: fit_array_no_TypeError)
  have outcomes: "fst (fit lib self (NdArray a)) = None
      \<or> fst (fit lib self (NdArray a)) = Some (Raised IndexError ''tuple index out of range'')
      \<or> fst (fit lib self (NdArray a)) =
          Some (Raised ValueError ''Invalid index type specified, use indexes as 'IP' or 'L2.'')
      \<or> (\<exists>h e. snd (add lib h a) = Some e \<and> fst (fit lib self (NdArray a)) = Some (Library e))"
  proof (cases "shape_at a 1")
    case None
    then show ?thesis by (simp add: fit_array)
  next
    case (Some d)
    show ?thesis
    proof (cases "index_type self = ''L2''")
      case True
      with Some show ?thesis
        by (cases "snd (add lib (IndexFlatL2 lib d) a)") (auto simp: fit_array)
    next
      case False
      with Some show ?thesis
        by (cases "snd (add lib (IndexFlatIP lib d) a)") (auto simp: fit_array)
    qed
  qed
  from own never outcomes show ?thesis by blast
qed

theorem fit_type_error_own_check_witness:
  "\<not> isinstance_ndarray (Obj ''list'' :: int pyobj)
   \<and> fst (fit recording (BaseFaissAnn_init BaseAnn_init ''L2'') (Obj ''list'' :: int pyobj)) =
       Some (Raised TypeError ''Embeddings must be an ndarray, got list'')
   \<and> fst (fit recording (BaseFaissAnn_init BaseAnn_init ''L2'')
            (NdArray \<lparr>shape = [1, 2], data = [3, 4 :: int]\<rparr>)) = None"
  using fit_type_error_own_check [of "Obj ''list'' :: int pyobj" recording
      "BaseFaissAnn_init BaseAnn_init ''L2''" "\<lparr>shape = [1, 2], data = [3, 4 :: int]\<rparr>"]
  by (simp add: fit_array shape_at_def BaseFaissAnn_init_def recording_def)

text \<open>
  C10. A call of \<open>_fit\<close> with an argument that is not an array raises the type error and
  leaves the instance as it was; and whenever \<open>_fit\<close> raises a \<open>TypeError\<close>, the
  instance is unchanged.
\<close>

theorem fit_type_error_atomic:
  "(\<not> isinstance_ndarray v \<longrightarrow>
      fit lib self v =
        (Some (Raised TypeError (''Embeddings must be an ndarray, got '' @ type_name v)), self))
   \<and> (fst (fit lib self v) = Some (Raised TypeError m) \<longrightarrow> snd (fit lib self v) = self)"
  by (cases v) (simp_all add: fit_not_array fit_array_no_TypeError)

theorem fit_type_error_atomic_witness:
  "\<not> isinstance_ndarray (Tensor \<lparr>shape = [2], data = [3, 4 :: int]\<rparr>)
   \<and> fit recording
        \<lparr>index_type = ''L2'', index = Bound (''L2'', 2, []),
         embeddings = Bound \<lparr>shape = [0, 2], data = []\<rparr>\<rparr>
        (Tensor \<lparr>shape = [2], data = [3, 4 :: int]\<rparr>) =
       (Some (Raised TypeError ''Embeddings must be an ndarray, got Tensor''),
        \<lparr>index_type = ''L2'', index = Bound (''L2'', 2, []),
         embeddings = Bound \<lparr>shape = [0, 2], data = []\<rparr>\<rparr>)"
  using fit_type_error_atomic [of "Tensor \<lparr>shape = [2], data = [3, 4 :: int]\<rparr>" recording
      "\<lparr>index_type = ''L2'', index = Bound (''L2'', 2, []),
        embeddings = Bound \<lparr>shape = [0, 2], data = []\<rparr>\<rparr>"]
  by simp



section \<open>Theorems on the pooling aggregator\<close>

lemma foldl_select:
  "foldl (\<lambda>fs (mode, func). if P mode then fs @ [func] else fs) acc xs =
     acc @ map snd (filter (\<lambda>entry. P (fst entry)) xs)"
  by (induction xs arbitrary: acc) (auto split: prod.split)

lemma pooling_functions_init:
  "pooling_functions (BasePooling_init funcs dim pooling_modes) =
     map snd (filter (\<lambda>entry. get_mode pooling_modes (fst entry)) funcs)"
  by (simp add: BasePooling_init_def foldl_select)

lemma pooling_functions_strategies:
  "pooling_functions (BasePooling_init (strategy_table table) dim pooling_modes) =
     map strategy_func (active pooling_modes table)"
  by (induction table)
     (auto simp: pooling_functions_init strategy_table_def active_def split: prod.split)

lemma run_funcs_strategies:
  "map (\<lambda>compute. compute features) cs = map Inr vs \<Longrightarrow>
     run_funcs (map strategy_func cs) output_vectors features = (output_vectors @ vs, None)"
proof (induction cs arbitrary: output_vectors vs)
  case Nil
  then show ?case by simp
next
  case (Cons c cs)
  from Cons.prems obtain v ws where vs: "vs = v # ws" and c: "c features = Inr v"
    and rest: "map (\<lambda>compute. compute features) cs = map Inr ws"
    by (cases vs) auto
  from Cons.IH [OF rest] show ?case
    by (simp add: vs c strategy_func_def)
qed

lemma apply_pooling_strategies:
  "map (\<lambda>compute. compute features) (active pooling_modes table) = map Inr vs \<Longrightarrow>
     apply_pooling (BasePooling_init (strategy_table table) dim pooling_modes)
       output_vectors features = (output_vectors @ vs, None)"
  by (simp add: apply_pooling_def pooling_functions_strategies run_funcs_strategies)


text \<open>
  C5. \<open>apply\<close> takes the output list, the token embeddings and the features, as the
  docstring of the class also has it. On the code the method has no parameter for the
  token embeddings: a call that passes them, second or last, is refused with a
  \<open>TypeError\<close> and the output list stays as it was, for every aggregator and every input.
\<close>

theorem apply_pooling_refuses_token_embeddings:
  "call_apply_pooling self (Call3 output_vectors token_embeddings features) =
     (output_vectors, Some (Raised TypeError
        ''BasePooling.apply_pooling() takes 3 positional arguments but 4 were given''))
   \<and> call_apply_pooling self (Call3_doc output_vectors features token_embeddings) =
     (output_vectors, Some (Raised TypeError
        ''BasePooling.apply_pooling() takes 3 positional arguments but 4 were given''))"
  by simp

text \<open>
  On the call with the two arguments of the signature the rest holds: when the computation
  of every active strategy succeeds on the features, the call appends their vectors to the
  output list in the order of registration and returns the list, which has grown by
  exactly the number of active strategies.
\<close>

lemma apply_pooling_appends:
  "map (\<lambda>compute. compute features) (active pooling_modes table) = map Inr vs \<Longrightarrow>
     call_apply_pooling (BasePooling_init (strategy_table table) dim pooling_modes)
       (Call2 output_vectors features) = (output_vectors @ vs, None)
   \<and> length (output_vectors @ vs) = length output_vectors + length (active pooling_modes table)"
proof -
  assume ok: "map (\<lambda>compute. compute features) (active pooling_modes table) = map Inr vs"
  then have "length (active pooling_modes table) = length vs"
    by (metis length_map)
  with apply_pooling_strategies [OF ok] show ?thesis by simp
qed




text \<open>
  C9. The constructor stores any integer as the dimension, and \<open>apply_pooling\<close> never
  reads it: two aggregators built from the same flags give the same result on the same
  inputs, whatever their dimensions.
\<close>

theorem apply_pooling_ignores_dimension:
  "apply_pooling (BasePooling_init funcs d1 pooling_modes) output_vectors features =
     apply_pooling (BasePooling_init funcs d2 pooling_modes) output_vectors features
   \<and> word_embedding_dimension (BasePooling_init funcs d1 pooling_modes) = d1
   \<and> pooling_functions (BasePooling_init funcs d1 pooling_modes) =
       pooling_functions (BasePooling_init funcs d2 pooling_modes)"
  by (simp add: apply_pooling_def BasePooling_init_def)

end
